theory Spec2Isabelle
  imports Main
begin

section \<open>Pageable tree folders (AccessProfilesTreeItem, RolesTreeItem)\<close>

text \<open>
  The two pageable folders of the tree, \<^verbatim>\<open>AccessProfilesTreeItem\<close> and
  \<^verbatim>\<open>RolesTreeItem\<close>, hold the same fields and run the same \<^verbatim>\<open>loadMore\<close>; they
  differ in the listing endpoint they call, in the class of the child they build for a
  fetched element and in the label of the message shown for an empty collection. One
  record models both; its field \<open>kind\<close> says which class the object is.
\<close>

datatype folder = AccessProfiles | Roles

text \<open>
  The children of a pageable folder. The tenant fields every node carries are the
  folder's own and never change, so a resource child is its label and its id.
\<close>

datatype BaseTreeItem =
    AccessProfileTreeItem string string
  | RoleTreeItem string string
  | LoadMoreNode
  | MessageNode string

text \<open>
  A JavaScript number as \<^verbatim>\<open>Number(response.headers[TOTAL_COUNT_HEADER])\<close> yields it:
  an integer count, or \<^verbatim>\<open>NaN\<close> when the header is absent or not numeric.
\<close>

datatype jsnumber = NaN | Finite int

text \<open>\<^verbatim>\<open>n === 0\<close>\<close>

fun is_zero :: "jsnumber \<Rightarrow> bool" where
  "is_zero NaN = False"
| "is_zero (Finite t) = (t = 0)"

text \<open>\<^verbatim>\<open>n > k\<close> for an array length \<open>k\<close>; every comparison with \<^verbatim>\<open>NaN\<close> is false.\<close>

fun js_gt :: "jsnumber \<Rightarrow> nat \<Rightarrow> bool" where
  "js_gt NaN k = False"
| "js_gt (Finite t) k = (t > int k)"

text \<open>A rejected promise or a thrown exception, with its message.\<close>

datatype err = Rejected string

text \<open>The fields of a pageable folder; \<open>total_priv\<close> is the private field \<^verbatim>\<open>_total\<close>.\<close>

record PageableNode =
  kind :: folder
  currentOffset :: nat
  limit :: nat
  filters :: string
  children :: "BaseTreeItem list"
  total_priv :: jsnumber

text \<open>The constructor: \<^verbatim>\<open>currentOffset = 0\<close>, \<^verbatim>\<open>limit = 250\<close>, \<^verbatim>\<open>filters = "*"\<close>,
  no children, \<^verbatim>\<open>_total = 0\<close>.\<close>

definition newPageableNode :: "folder \<Rightarrow> PageableNode" where
  "newPageableNode k =
     \<lparr>kind = k, currentOffset = 0, limit = 250, filters = ''*'', children = [],
      total_priv = Finite 0\<rparr>"

text \<open>
  The arguments of \<^verbatim>\<open>paginatedSearchAccessProfiles\<close> / \<^verbatim>\<open>paginatedSearchRoles\<close> and what
  \<^verbatim>\<open>loadMore\<close> reads of the response: the elements of \<^verbatim>\<open>response.data\<close> (name and id)
  and the total-count header after \<^verbatim>\<open>Number(...)\<close>. The client is a parameter of the
  model: a function from the request to a rejection or a response.
\<close>

record request =
  req_filters :: string
  req_limit :: nat
  req_offset :: nat
  req_needTotal :: bool

record response =
  resp_data :: "(string \<times> string) list"
  resp_total :: jsnumber

type_synonym client = "request \<Rightarrow> err + response"

definition reset :: "PageableNode \<Rightarrow> PageableNode" where
  "reset s = s\<lparr>currentOffset := 0, children := []\<rparr>"

text \<open>\<^verbatim>\<open>get hasMore(): return this._total > this.children.length\<close>\<close>

definition hasMore :: "PageableNode \<Rightarrow> bool" where
  "hasMore s = js_gt (total_priv s) (length (children s))"

text \<open>\<^verbatim>\<open>if (this.children.length > 0) { this.children.pop(); }\<close>\<close>

definition popLast :: "PageableNode \<Rightarrow> PageableNode" where
  "popLast s = (if length (children s) > 0 then s\<lparr>children := butlast (children s)\<rparr> else s)"

text \<open>The request \<^verbatim>\<open>loadMore\<close> sends from a state (after the pop).\<close>

definition pageRequest :: "PageableNode \<Rightarrow> request" where
  "pageRequest s =
     \<lparr>req_filters = filters s, req_limit = limit s, req_offset = currentOffset s,
      req_needTotal = is_zero (total_priv s)\<rparr>"

definition newChild :: "folder \<Rightarrow> string \<times> string \<Rightarrow> BaseTreeItem" where
  "newChild k x =
     (case k of AccessProfiles \<Rightarrow> AccessProfileTreeItem (fst x) (snd x)
              | Roles \<Rightarrow> RoleTreeItem (fst x) (snd x))"

definition emptyMessage :: "folder \<Rightarrow> string" where
  "emptyMessage k =
     (case k of AccessProfiles \<Rightarrow> ''No access profile found'' | Roles \<Rightarrow> ''No role found'')"

text \<open>What \<^verbatim>\<open>loadMore\<close> does with the response once the fetch has resolved.\<close>

definition receivePage :: "response \<Rightarrow> PageableNode \<Rightarrow> PageableNode" where
  "receivePage r s1 =
     (let s2 = (if is_zero (total_priv s1) then s1\<lparr>total_priv := resp_total r\<rparr> else s1)
      in if is_zero (total_priv s2)
         then s2\<lparr>children := [MessageNode (emptyMessage (kind s2))]\<rparr>
         else
           let s3 = s2\<lparr>children := children s2 @ map (newChild (kind s2)) (resp_data r)\<rparr>
           in if hasMore s3
              then s3\<lparr>children := children s3 @ [LoadMoreNode],
                      currentOffset := currentOffset s3 + limit s3\<rparr>
              else s3)"

text \<open>
  \<^verbatim>\<open>loadMore\<close>: the pop happens before the fetch is awaited, so a rejected fetch leaves
  the popped state behind and the rejection goes to the caller.
\<close>

definition loadMore :: "client \<Rightarrow> PageableNode \<Rightarrow> (err + unit) \<times> PageableNode" where
  "loadMore fetch s =
     (let s1 = popLast s
      in case fetch (pageRequest s1) of
           Inl e \<Rightarrow> (Inl e, s1)
         | Inr r \<Rightarrow> (Inr (), receivePage r s1))"

definition getChildren :: "client \<Rightarrow> PageableNode \<Rightarrow> (err + BaseTreeItem list) \<times> PageableNode" where
  "getChildren fetch s =
     (if length (children s) = 0
      then (case loadMore fetch s of
              (Inl e, s') \<Rightarrow> (Inl e, s')
            | (Inr u, s') \<Rightarrow> (Inr (children s'), s'))
      else (Inr (children s), s))"

text \<open>Successive \<^verbatim>\<open>loadMore\<close> calls, one client per call (the remote side may change
  between calls), each awaited before the next starts.\<close>

fun loadMoreSeq :: "client list \<Rightarrow> PageableNode \<Rightarrow> PageableNode" where
  "loadMoreSeq [] s = s"
| "loadMoreSeq (f # fs) s = loadMoreSeq fs (snd (loadMore f s))"

text \<open>The children that are collection elements, without the synthetic nodes.\<close>

fun isResource :: "BaseTreeItem \<Rightarrow> bool" where
  "isResource (AccessProfileTreeItem n i) = True"
| "isResource (RoleTreeItem n i) = True"
| "isResource LoadMoreNode = False"
| "isResource (MessageNode m) = False"

definition resources :: "PageableNode \<Rightarrow> BaseTreeItem list" where
  "resources s = filter isResource (children s)"

text \<open>
  Modelled from the spec: the listing endpoint behind \<^verbatim>\<open>paginatedSearchAccessProfiles\<close> and
  \<^verbatim>\<open>paginatedSearchRoles\<close> (the client is not among the sources), over a fixed remote
  collection, as the external interface \<^verbatim>\<open>fetchPage\<close> describes it: the window of \<open>limit\<close>
  elements at \<open>offset\<close>, and the total count only when it is requested.
\<close>

definition listing :: "(string \<times> string) list \<Rightarrow> client" where
  "listing coll req =
     Inr \<lparr>resp_data = take (req_limit req) (drop (req_offset req) coll),
          resp_total = (if req_needTotal req then Finite (int (length coll)) else NaN)\<rparr>"

text \<open>A fixed collection of ten access profiles and a folder that pages it by four.\<close>

definition tenProfiles :: "(string \<times> string) list" where
  "tenProfiles =
     [(''ap0'', ''id0''), (''ap1'', ''id1''), (''ap2'', ''id2''), (''ap3'', ''id3''),
      (''ap4'', ''id4''), (''ap5'', ''id5''), (''ap6'', ''id6''), (''ap7'', ''id7''),
      (''ap8'', ''id8''), (''ap9'', ''id9'')]"

definition fourPerPage :: PageableNode where
  "fourPerPage = (newPageableNode AccessProfiles)\<lparr>limit := 4\<rparr>"

definition afterTwoPages :: PageableNode where
  "afterTwoPages = loadMoreSeq [listing tenProfiles, listing tenProfiles] fourPerPage"

definition afterThreePages :: PageableNode where
  "afterThreePages = snd (loadMore (listing tenProfiles) afterTwoPages)"

text \<open>The same folder after its first page, and a remote collection that has shrunk to
  three elements by the time the folder is reset and paged again.\<close>

definition afterOnePage :: PageableNode where
  "afterOnePage = snd (loadMore (listing tenProfiles) fourPerPage)"

text \<open>A client whose fetch is rejected, and the folder that has loaded its first page
  after a "Load more" that met this client.\<close>

definition offline :: client where
  "offline req = Inl (Rejected ''Network Error'')"

definition afterRejectedFetch :: PageableNode where
  "afterRejectedFetch = snd (loadMore offline afterOnePage)"

definition threeProfiles :: "(string \<times> string) list" where
  "threeProfiles = [(''ap0'', ''id0''), (''ap1'', ''id1''), (''ap2'', ''id2'')]"


section \<open>TreeManager: reset and aggregation of a source\<close>

text \<open>
  What the commands read of a \<^verbatim>\<open>SourceTreeItem\<close>: its id and its label. The client is
  built from the item's tenant; building it has no effect of its own, so the backend
  below is the one of that tenant.
\<close>

record SourceTreeItem =
  item_id :: string
  label :: string

text \<open>What the commands read of a \<^verbatim>\<open>TaskStatusBeta\<close>; the completion status is read as
  a string.\<close>

record TaskStatusBeta =
  task_id :: string
  completionStatus :: string

text \<open>
  Everything outside \<^verbatim>\<open>TreeManager\<close>: the answer of the user to a confirmation prompt,
  the four job-start calls of the client (each resolves to the id of the started job or
  rejects), and \<^verbatim>\<open>waifForJob\<close>, which polls a job under the cancellation token of the
  progress notification and resolves to the task or to no task (or rejects).
\<close>

record world =
  confirm :: "string \<Rightarrow> bool"
  startEntitlementReset :: "string \<Rightarrow> err + string"
  startAccountReset :: "string \<Rightarrow> err + string"
  startEntitlementAggregation :: "string \<Rightarrow> err + string"
  startAccountAggregation :: "string \<Rightarrow> bool \<Rightarrow> err + string"
  waifForJob :: "string \<Rightarrow> err + TaskStatusBeta option"

text \<open>The calls a command makes, in the order it makes them.\<close>

datatype call =
    Confirm string
  | StartEntitlementReset string
  | StartAccountReset string
  | StartEntitlementAggregation string
  | StartAccountAggregation string bool
  | WaifForJob string
  | FormatTask "TaskStatusBeta option" string string string string

text \<open>
  An awaited computation: the calls made so far, and a rejection or the value. A
  rejection skips the rest of the \<^verbatim>\<open>async\<close> function, as the exception would.
\<close>

type_synonym 'a run = "call list \<times> (err + 'a)"

definition finish :: "'a \<Rightarrow> 'a run" where
  "finish x = ([], Inr x)"

definition invoke :: "call \<Rightarrow> err + 'a \<Rightarrow> 'a run" where
  "invoke c r = ([c], r)"

definition await :: "'a run \<Rightarrow> ('a \<Rightarrow> 'b run) \<Rightarrow> 'b run" where
  "await m f =
     (case m of
        (t, Inl e) \<Rightarrow> (t, Inl e)
      | (t, Inr x) \<Rightarrow> (case f x of (t', r) \<Rightarrow> (t @ t', r)))"

text \<open>\<^verbatim>\<open>doConfirm && !(await confirm(msg))\<close>: the prompt is shown only when \<open>doConfirm\<close>.\<close>

definition declined :: "world \<Rightarrow> bool \<Rightarrow> string \<Rightarrow> bool run" where
  "declined w doConfirm msg =
     (if doConfirm
      then await (invoke (Confirm msg) (Inr (confirm w msg))) (\<lambda>yes. finish (\<not> yes))
      else finish False)"

text \<open>
  \<^verbatim>\<open>resetEntitlements\<close>: the callback of \<^verbatim>\<open>withProgress\<close> ends in \<^verbatim>\<open>return undefined\<close>,
  and the function awaits \<^verbatim>\<open>withProgress\<close> without returning its result.
\<close>

definition resetEntitlements :: "world \<Rightarrow> SourceTreeItem \<Rightarrow> bool \<Rightarrow> TaskStatusBeta option run" where
  "resetEntitlements w item doConfirm =
     await (declined w doConfirm
        (''Are you sure you want to reset entitlements for '' @ label item @ ''?''))
     (\<lambda>no. if no then finish None
        else
          await (invoke (StartEntitlementReset (item_id item))
                   (startEntitlementReset w (item_id item)))
          (\<lambda>job. await (invoke (WaifForJob job) (waifForJob w job))
          (\<lambda>task. await (invoke (FormatTask task (label item)
                     ''Entitlements for {0} successfully resetted''
                     ''Warning during entitlement reset of {0}: {1}''
                     ''Reset of entitlements for {0} failed: {1}: {2}'') (Inr ()))
          (\<lambda>u. finish None))))"

text \<open>\<^verbatim>\<open>resetAccounts\<close>: the callback returns the task and the function returns what
  \<^verbatim>\<open>withProgress\<close> resolves to.\<close>

definition resetAccounts :: "world \<Rightarrow> SourceTreeItem \<Rightarrow> bool \<Rightarrow> TaskStatusBeta option run" where
  "resetAccounts w item doConfirm =
     await (declined w doConfirm
        (''Are you sure you want to reset accounts for '' @ label item @ ''?''))
     (\<lambda>no. if no then finish None
        else
          await (invoke (StartAccountReset (item_id item))
                   (startAccountReset w (item_id item)))
          (\<lambda>job. await (invoke (WaifForJob job) (waifForJob w job))
          (\<lambda>task. await (invoke (FormatTask task (label item)
                     ''Accounts for {0} successfully resetted''
                     ''Warning during account reset of {0}: {1}''
                     ''Reset of accounts for {0} failed: {1}: {2}'') (Inr ()))
          (\<lambda>u. finish task))))"

text \<open>The two aggregations are \<^verbatim>\<open>Promise<void>\<close>: they resolve to no value.\<close>

definition aggregateEntitlements :: "world \<Rightarrow> SourceTreeItem \<Rightarrow> unit run" where
  "aggregateEntitlements w item =
     await (invoke (StartEntitlementAggregation (item_id item))
              (startEntitlementAggregation w (item_id item)))
     (\<lambda>job. await (invoke (WaifForJob job) (waifForJob w job))
     (\<lambda>task. invoke (FormatTask task (label item)
                ''Source entitlements {0} successfully aggregated''
                ''Warning during aggregation of {0}: {1}''
                ''Aggregation of entitlements for {0} failed: {1}: {2}'') (Inr ())))"

definition aggregateSource :: "world \<Rightarrow> SourceTreeItem \<Rightarrow> bool \<Rightarrow> unit run" where
  "aggregateSource w item disableOptimization =
     await (invoke (StartAccountAggregation (item_id item) disableOptimization)
              (startAccountAggregation w (item_id item) disableOptimization))
     (\<lambda>job. await (invoke (WaifForJob job) (waifForJob w job))
     (\<lambda>task. invoke (FormatTask task (label item)
                ''Source {0} successfully aggregated''
                ''Warning during aggregation of {0}: {1}''
                ''Aggregation of {0} failed: {1}: {2}'') (Inr ())))"

text \<open>
  \<^verbatim>\<open>String.prototype.toUpperCase\<close> on the ASCII letters, which is what the completion
  statuses are made of.
\<close>

definition toUpperChar :: "char \<Rightarrow> char" where
  "toUpperChar c =
     (let n = (of_char c :: nat) in if 97 \<le> n \<and> n \<le> 122 then char_of (n - 32) else c)"

definition toUpperCase :: "string \<Rightarrow> string" where
  "toUpperCase s = map toUpperChar s"

text \<open>\<^verbatim>\<open>TaskStatusBetaCompletionStatusEnum.Success\<close> of the API client library.\<close>

definition TaskStatusBetaCompletionStatusEnum_Success :: string where
  "TaskStatusBetaCompletionStatusEnum_Success = ''SUCCESS''"

text \<open>
  The guard of \<^verbatim>\<open>resetSource\<close>:
  \<^verbatim>\<open>task?.completionStatus.toUpperCase() === TaskStatusBetaCompletionStatusEnum.Success.toUpperCase()\<close>.
  With no task the left side is \<^verbatim>\<open>undefined\<close> and the comparison is false.
\<close>

definition isSuccess :: "TaskStatusBeta option \<Rightarrow> bool" where
  "isSuccess task =
     (case task of
        None \<Rightarrow> False
      | Some t \<Rightarrow> toUpperCase (completionStatus t) = toUpperCase TaskStatusBetaCompletionStatusEnum_Success)"

definition resetSource :: "world \<Rightarrow> SourceTreeItem \<Rightarrow> unit run" where
  "resetSource w item =
     await (declined w True (''Are you sure you want to reset the source '' @ label item @ ''?''))
     (\<lambda>no. if no then finish ()
        else
          await (resetAccounts w item False)
          (\<lambda>task. if isSuccess task
                   then await (resetEntitlements w item False) (\<lambda>r. finish ())
                   else finish ()))"

text \<open>How many times a run started an entitlement reset.\<close>

fun isStartEntitlementReset :: "call \<Rightarrow> bool" where
  "isStartEntitlementReset (StartEntitlementReset i) = True"
| "isStartEntitlementReset c = False"

definition entitlementResetStarts :: "call list \<Rightarrow> nat" where
  "entitlementResetStarts t = length (filter isStartEntitlementReset t)"

text \<open>A source, and backends whose account reset ends in the given completion status,
  in no task at all, or never starts.\<close>

definition hrSource :: SourceTreeItem where
  "hrSource = \<lparr>item_id = ''2c91808a'', label = ''HR''\<rparr>"

definition worldEnding :: "TaskStatusBeta option \<Rightarrow> world" where
  "worldEnding task =
     \<lparr>confirm = (\<lambda>msg. True),
      startEntitlementReset = (\<lambda>i. Inr ''job-entitlements''),
      startAccountReset = (\<lambda>i. Inr ''job-accounts''),
      startEntitlementAggregation = (\<lambda>i. Inr ''job-entitlement-aggregation''),
      startAccountAggregation = (\<lambda>i d. Inr ''job-aggregation''),
      waifForJob = (\<lambda>j. Inr task)\<rparr>"

text \<open>The same backend with a user who answers no to every prompt.\<close>

definition worldDeclining :: "TaskStatusBeta option \<Rightarrow> world" where
  "worldDeclining task = (worldEnding task)\<lparr>confirm := (\<lambda>msg. False)\<rparr>"

definition successTask :: TaskStatusBeta where
  "successTask = \<lparr>task_id = ''job-accounts'', completionStatus = ''SUCCESS''\<rparr>"

definition warningTask :: TaskStatusBeta where
  "warningTask = \<lparr>task_id = ''job-accounts'', completionStatus = ''WARNING''\<rparr>"


section \<open>CacheService and the name-to-id cache of access profiles\<close>

text \<open>
  \<^verbatim>\<open>AccessProfileNameToIdCacheService\<close> passes this resolver to the constructor of its
  base class: it awaits \<^verbatim>\<open>client.getAccessProfileByName(key)\<close> and returns the \<^verbatim>\<open>id\<close> of the
  access profile. The client call is a parameter: it resolves to the access profile
  (name and id) or rejects.
\<close>

definition accessProfileNameToId :: "(string \<Rightarrow> err + string \<times> string) \<Rightarrow> string \<Rightarrow> err + string" where
  "accessProfileNameToId getAccessProfileByName key =
     (case getAccessProfileByName key of Inl e \<Rightarrow> Inl e | Inr ap \<Rightarrow> Inr (snd ap))"

text \<open>
  Modelled from the spec: the base class \<^verbatim>\<open>CacheService\<close> (the SingleFlightCache of the
  specification) is not among the sources; only its subclass above is. The model follows
  the specification's data model and component design: an entry is Pending (with the
  callers attached to the outstanding resolution) or Resolved (with the value); a failed
  resolution removes the entry. Scheduling is single-threaded and cooperative, so a run of
  the cache is a sequence of events: a caller's \<^verbatim>\<open>get(key)\<close> up to its suspension point, and
  the settling of the outstanding resolution of a key with the resolver's outcome. The
  cache records each invocation of the resolver and what each caller's \<^verbatim>\<open>get\<close> settles
  with.
\<close>

datatype 'v CacheEntry = Pending "nat list" | Resolved 'v

record 'v SingleFlightCache =
  entries :: "string \<rightharpoonup> 'v CacheEntry"
  resolverCalls :: "string list"
  delivered :: "(nat \<times> string \<times> (err + 'v)) list"

definition emptyCache :: "'v SingleFlightCache" where
  "emptyCache = \<lparr>entries = Map.empty, resolverCalls = [], delivered = []\<rparr>"

text \<open>
  Modelled from the spec: \<^verbatim>\<open>CacheService.get(key)\<close>, called by caller \<open>c\<close>. A Resolved entry
  returns its value at once; a Pending entry takes the caller on; no entry creates a
  Pending one and invokes the resolver.
\<close>

definition get :: "nat \<Rightarrow> string \<Rightarrow> 'v SingleFlightCache \<Rightarrow> 'v SingleFlightCache" where
  "get c k st =
     (case entries st k of
        Some (Resolved v) \<Rightarrow> st\<lparr>delivered := delivered st @ [(c, k, Inr v)]\<rparr>
      | Some (Pending cs) \<Rightarrow> st\<lparr>entries := (entries st)(k \<mapsto> Pending (cs @ [c]))\<rparr>
      | None \<Rightarrow>
          st\<lparr>entries := (entries st)(k \<mapsto> Pending [c]),
             resolverCalls := resolverCalls st @ [k]\<rparr>)"

text \<open>
  Modelled from the spec: the continuation of \<^verbatim>\<open>CacheService.get\<close> when the outstanding
  resolution of \<open>k\<close> settles. On success the entry becomes Resolved and every attached
  caller receives the value; on failure the entry is removed and every attached caller
  receives the error. Without an outstanding resolution nothing happens.
\<close>

definition settle :: "string \<Rightarrow> err + 'v \<Rightarrow> 'v SingleFlightCache \<Rightarrow> 'v SingleFlightCache" where
  "settle k outcome st =
     (case entries st k of
        Some (Pending cs) \<Rightarrow>
          (case outcome of
             Inr v \<Rightarrow>
               st\<lparr>entries := (entries st)(k \<mapsto> Resolved v),
                  delivered := delivered st @ map (\<lambda>c. (c, k, Inr v)) cs\<rparr>
           | Inl e \<Rightarrow>
               st\<lparr>entries := (entries st)(k := None),
                  delivered := delivered st @ map (\<lambda>c. (c, k, Inl e)) cs\<rparr>)
      | Some (Resolved v) \<Rightarrow> st
      | None \<Rightarrow> st)"

text \<open>The callers of a list call \<^verbatim>\<open>get(k)\<close> one after the other, none of them resumed
  in between: concurrent calls under cooperative scheduling.\<close>

fun getAll :: "nat list \<Rightarrow> string \<Rightarrow> 'v SingleFlightCache \<Rightarrow> 'v SingleFlightCache" where
  "getAll [] k st = st"
| "getAll (c # cs) k st = getAll cs k (get c k st)"

text \<open>A directory of access profiles with one entry, for the resolver above.\<close>

definition oneProfileDirectory :: "string \<Rightarrow> err + string \<times> string" where
  "oneProfileDirectory name =
     (if name = ''Payroll'' then Inr (''Payroll'', ''2c9180'') else Inl (Rejected ''not found''))"


section \<open>Properties of the pageable folders\<close>

lemma popLast_simps:
  "kind (popLast s) = kind s"
  "currentOffset (popLast s) = currentOffset s"
  "limit (popLast s) = limit s"
  "filters (popLast s) = filters s"
  "total_priv (popLast s) = total_priv s"
  "children (popLast s) = butlast (children s)"
  by (simp_all add: popLast_def)

lemma resources_map_newChild:
  "filter isResource (map (newChild k) xs) = map (newChild k) xs"
  by (induction xs) (auto simp: newChild_def split: folder.splits)

text \<open>The three pages of a collection of ten elements paged by four, one call each.\<close>

lemma loadMore_listing_first:
  assumes "length coll = 10"
  shows "snd (loadMore (listing coll) ((newPageableNode k)\<lparr>limit := 4\<rparr>)) =
     \<lparr>kind = k, currentOffset = 4, limit = 4, filters = ''*'',
      children = map (newChild k) (take 4 coll) @ [LoadMoreNode],
      total_priv = Finite 10\<rparr>"
  using assms
  by (simp add: loadMore_def popLast_def pageRequest_def receivePage_def hasMore_def
      listing_def newPageableNode_def)

lemma loadMore_listing_second:
  assumes "length coll = 10"
  shows "snd (loadMore (listing coll)
       \<lparr>kind = k, currentOffset = 4, limit = 4, filters = ''*'',
        children = map (newChild k) (take 4 coll) @ [LoadMoreNode],
        total_priv = Finite 10\<rparr>) =
     \<lparr>kind = k, currentOffset = 8, limit = 4, filters = ''*'',
      children = map (newChild k) (take 4 coll) @ map (newChild k) (take 4 (drop 4 coll))
        @ [LoadMoreNode],
      total_priv = Finite 10\<rparr>"
  using assms
  by (simp add: loadMore_def popLast_def pageRequest_def receivePage_def hasMore_def
      listing_def)

lemma loadMore_listing_third:
  assumes "length coll = 10"
  shows "snd (loadMore (listing coll)
       \<lparr>kind = k, currentOffset = 8, limit = 4, filters = ''*'',
        children = map (newChild k) (take 4 coll) @ map (newChild k) (take 4 (drop 4 coll))
          @ [LoadMoreNode],
        total_priv = Finite 10\<rparr>) =
     \<lparr>kind = k, currentOffset = 8, limit = 4, filters = ''*'',
      children = map (newChild k) (take 4 coll) @ map (newChild k) (take 4 (drop 4 coll))
        @ map (newChild k) (take 4 (drop 8 coll)),
      total_priv = Finite 10\<rparr>"
  using assms
  by (simp add: loadMore_def popLast_def pageRequest_def receivePage_def hasMore_def
      listing_def butlast_append)

lemma afterOnePage_eq:
  "afterOnePage =
     \<lparr>kind = AccessProfiles, currentOffset = 4, limit = 4, filters = ''*'',
      children = map (newChild AccessProfiles) (take 4 tenProfiles) @ [LoadMoreNode],
      total_priv = Finite 10\<rparr>"
  by (simp add: afterOnePage_def fourPerPage_def loadMore_def popLast_def pageRequest_def
      receivePage_def hasMore_def listing_def newPageableNode_def tenProfiles_def)

lemma afterTwoPages_eq:
  "afterTwoPages =
     \<lparr>kind = AccessProfiles, currentOffset = 8, limit = 4, filters = ''*'',
      children = map (newChild AccessProfiles) (take 8 tenProfiles) @ [LoadMoreNode],
      total_priv = Finite 10\<rparr>"
  by (simp add: afterTwoPages_def fourPerPage_def loadMore_def popLast_def pageRequest_def
      receivePage_def hasMore_def listing_def newPageableNode_def tenProfiles_def)

lemma afterThreePages_eq:
  "afterThreePages =
     \<lparr>kind = AccessProfiles, currentOffset = 8, limit = 4, filters = ''*'',
      children = map (newChild AccessProfiles) tenProfiles, total_priv = Finite 10\<rparr>"
  by (simp add: afterThreePages_def afterTwoPages_eq loadMore_def popLast_def pageRequest_def
      receivePage_def hasMore_def listing_def tenProfiles_def)

text \<open>The total is written only while it is zero.\<close>

lemma loadMore_keeps_known_total:
  "\<not> is_zero (total_priv s) \<Longrightarrow> total_priv (snd (loadMore f s)) = total_priv s"
  by (simp add: loadMore_def receivePage_def popLast_simps Let_def split: sum.splits)

lemma loadMoreSeq_keeps_known_total:
  "\<not> is_zero (total_priv s) \<Longrightarrow> total_priv (loadMoreSeq fs s) = total_priv s"
  by (induction fs arbitrary: s) (simp_all add: loadMore_keeps_known_total)

lemma loadMore_first_total:
  assumes "is_zero (total_priv s)" and "fetch (pageRequest (popLast s)) = Inr r"
  shows "total_priv (snd (loadMore fetch s)) = resp_total r"
  using assms by (simp add: loadMore_def receivePage_def popLast_simps Let_def)

lemma receivePage_ignores_header:
  "\<not> is_zero (total_priv s) \<Longrightarrow> receivePage (r\<lparr>resp_total := x\<rparr>) s = receivePage r s"
  by (simp add: receivePage_def)

text \<open>
  Claim C3. A folder with page size 4 over a remote collection of 10 elements: after one,
  two and three \<^verbatim>\<open>loadMore()\<close> calls the children hold 4, 8 and 10 collection elements (the
  "Load more" node not counted), and \<^verbatim>\<open>hasMore\<close> is true, true and false.
\<close>

theorem loadMore_ten_by_four:
  assumes "length coll = 10"
  shows "let f = listing coll;
             s0 = (newPageableNode k)\<lparr>limit := 4\<rparr>;
             s1 = loadMoreSeq [f] s0;
             s2 = loadMoreSeq [f, f] s0;
             s3 = loadMoreSeq [f, f, f] s0
         in length (resources s1) = 4 \<and> hasMore s1
          \<and> length (resources s2) = 8 \<and> hasMore s2
          \<and> length (resources s3) = 10 \<and> \<not> hasMore s3"
  using assms
  by (simp add: Let_def loadMore_listing_first loadMore_listing_second loadMore_listing_third
      hasMore_def resources_def resources_map_newChild)

theorem loadMore_ten_by_four_witness:
  "length tenProfiles = 10
   \<and> length (resources (loadMoreSeq [listing tenProfiles] fourPerPage)) = 4
   \<and> hasMore (loadMoreSeq [listing tenProfiles] fourPerPage)
   \<and> length (resources afterTwoPages) = 8
   \<and> hasMore afterTwoPages
   \<and> length (resources
        (loadMoreSeq [listing tenProfiles, listing tenProfiles, listing tenProfiles]
           fourPerPage)) = 10
   \<and> \<not> hasMore
        (loadMoreSeq [listing tenProfiles, listing tenProfiles, listing tenProfiles]
           fourPerPage)"
proof -
  have n: "length tenProfiles = 10" by (simp add: tenProfiles_def)
  from loadMore_ten_by_four [OF n, of AccessProfiles] n show ?thesis
    by (simp add: Let_def fourPerPage_def afterTwoPages_def)
qed

text \<open>
  The last page of the ten elements: the fetch at offset 8 resolves to a page of two
  elements, and the offset is 8 before the call and 8 after it, with a page size of 4.
\<close>

theorem loadMore_last_page_keeps_offset:
  "listing tenProfiles (pageRequest (popLast afterTwoPages)) =
      Inr \<lparr>resp_data = [(''ap8'', ''id8''), (''ap9'', ''id9'')], resp_total = NaN\<rparr>
   \<and> fst (loadMore (listing tenProfiles) afterTwoPages) = Inr ()
   \<and> limit afterTwoPages = 4
   \<and> currentOffset afterTwoPages = 8
   \<and> currentOffset (snd (loadMore (listing tenProfiles) afterTwoPages)) = 8"
  by (simp add: afterTwoPages_eq loadMore_def popLast_def pageRequest_def receivePage_def
      hasMore_def listing_def tenProfiles_def)

text \<open>
  Claim C4, amended. After a successful fetch the offset has increased by exactly the
  page size when the stored total (captured from this response if it was still zero) is
  not zero and exceeds the number of children accumulated once the page is appended,
  which is when \<^verbatim>\<open>hasMore\<close> holds and the "Load more" node is appended; otherwise the
  offset is unchanged, whether the page was empty or not.
\<close>

theorem loadMore_offset_step:
  assumes "fetch (pageRequest (popLast s)) = Inr r"
  shows "currentOffset (snd (loadMore fetch s)) =
     (let t = (if is_zero (total_priv s) then resp_total r else total_priv s)
      in if \<not> is_zero t \<and> js_gt t (length (children (popLast s)) + length (resp_data r))
         then currentOffset s + limit s else currentOffset s)"
  using assms
  by (simp add: loadMore_def receivePage_def hasMore_def popLast_simps Let_def)

theorem loadMore_offset_step_witness:
  "listing tenProfiles (pageRequest (popLast fourPerPage)) =
      Inr \<lparr>resp_data = take 4 tenProfiles, resp_total = Finite 10\<rparr>
   \<and> currentOffset fourPerPage = 0
   \<and> currentOffset (snd (loadMore (listing tenProfiles) fourPerPage)) = 4"
proof -
  have f: "listing tenProfiles (pageRequest (popLast fourPerPage)) =
      Inr \<lparr>resp_data = take 4 tenProfiles, resp_total = Finite 10\<rparr>"
    by (simp add: listing_def pageRequest_def popLast_def fourPerPage_def
        newPageableNode_def tenProfiles_def)
  from f loadMore_offset_step [where fetch = "listing tenProfiles" and s = fourPerPage
      and r = "\<lparr>resp_data = take 4 tenProfiles, resp_total = Finite 10\<rparr>"]
  show ?thesis
    by (simp add: popLast_def fourPerPage_def newPageableNode_def tenProfiles_def)
qed

text \<open>
  Claim C5, at two folders of page size 4 over the ten access profiles. (1) The folder
  has loaded its first page and a "Load more" is rejected by the client: the pop has
  removed the "Load more" node and the four access profiles are left. The next
  \<^verbatim>\<open>loadMore()\<close> pops the fourth access profile before it fetches, and the children end
  without it. (2) The folder has loaded all ten elements, so no "Load more" node is
  left: one more \<^verbatim>\<open>loadMore()\<close> pops the tenth access profile, and the page at offset 8 is
  appended to the nine that are left, so the ninth element is listed twice.
\<close>

theorem loadMore_pops_resource:
  "loadMore offline afterOnePage =
      (Inl (Rejected ''Network Error''),
       \<lparr>kind = AccessProfiles, currentOffset = 4, limit = 4, filters = ''*'',
        children = map (newChild AccessProfiles) (take 4 tenProfiles),
        total_priv = Finite 10\<rparr>)
   \<and> children (popLast afterRejectedFetch) =
        map (newChild AccessProfiles) (take 3 tenProfiles)
   \<and> children (snd (loadMore (listing tenProfiles) afterRejectedFetch)) =
        [AccessProfileTreeItem ''ap0'' ''id0'', AccessProfileTreeItem ''ap1'' ''id1'',
         AccessProfileTreeItem ''ap2'' ''id2'', AccessProfileTreeItem ''ap4'' ''id4'',
         AccessProfileTreeItem ''ap5'' ''id5'', AccessProfileTreeItem ''ap6'' ''id6'',
         AccessProfileTreeItem ''ap7'' ''id7'', LoadMoreNode]
   \<and> children afterThreePages = map (newChild AccessProfiles) tenProfiles
   \<and> children (popLast afterThreePages) = map (newChild AccessProfiles) (take 9 tenProfiles)
   \<and> children (snd (loadMore (listing tenProfiles) afterThreePages)) =
        map (newChild AccessProfiles) (take 9 tenProfiles) @
        [AccessProfileTreeItem ''ap8'' ''id8'', AccessProfileTreeItem ''ap9'' ''id9'']"
  by (simp add: afterRejectedFetch_def afterOnePage_eq afterThreePages_eq offline_def
      loadMore_def popLast_def pageRequest_def receivePage_def hasMore_def listing_def
      tenProfiles_def newChild_def)

text \<open>
  Claim C6. While the stored total is zero (no fetch has reported a total yet), a
  \<^verbatim>\<open>loadMore()\<close> whose fetch reports a total of zero leaves exactly one message node as the
  children, and \<^verbatim>\<open>hasMore\<close> is false.
\<close>

theorem loadMore_empty_collection:
  assumes "is_zero (total_priv s)"
    and "fetch (pageRequest (popLast s)) = Inr r"
    and "is_zero (resp_total r)"
  shows "fst (loadMore fetch s) = Inr ()
       \<and> children (snd (loadMore fetch s)) = [MessageNode (emptyMessage (kind s))]
       \<and> \<not> hasMore (snd (loadMore fetch s))"
proof -
  from assms(3) obtain "resp_total r = Finite 0" by (cases "resp_total r") simp_all
  with assms show ?thesis
    by (simp add: loadMore_def receivePage_def hasMore_def popLast_simps)
qed

theorem loadMore_empty_collection_witness:
  "is_zero (total_priv (newPageableNode Roles))
   \<and> listing [] (pageRequest (popLast (newPageableNode Roles))) =
        Inr \<lparr>resp_data = [], resp_total = Finite 0\<rparr>
   \<and> is_zero (resp_total \<lparr>resp_data = [], resp_total = Finite 0\<rparr>)
   \<and> fst (loadMore (listing []) (newPageableNode Roles)) = Inr ()
   \<and> children (snd (loadMore (listing []) (newPageableNode Roles))) =
        [MessageNode ''No role found'']
   \<and> \<not> hasMore (snd (loadMore (listing []) (newPageableNode Roles)))"
proof -
  have a: "is_zero (total_priv (newPageableNode Roles))"
    by (simp add: newPageableNode_def)
  have b: "listing [] (pageRequest (popLast (newPageableNode Roles))) =
        Inr \<lparr>resp_data = [], resp_total = Finite 0\<rparr>"
    by (simp add: listing_def pageRequest_def popLast_def newPageableNode_def)
  have c: "is_zero (resp_total \<lparr>resp_data = [], resp_total = Finite 0\<rparr>)" by simp
  show ?thesis
    using a b c
      loadMore_empty_collection [of "newPageableNode Roles" "listing []"
        "\<lparr>resp_data = [], resp_total = Finite 0\<rparr>"]
    by (simp add: emptyMessage_def newPageableNode_def)
qed

text \<open>
  Claim C10. \<^verbatim>\<open>reset()\<close> sets the offset to 0 and empties the children and leaves the
  stored total as it is. So once a first fetch has stored a total that is not zero, then
  after any further \<^verbatim>\<open>loadMore()\<close> calls, a \<^verbatim>\<open>reset()\<close> and any \<^verbatim>\<open>loadMore()\<close> calls after
  it, the stored total is still that first total, the next \<^verbatim>\<open>loadMore()\<close> sends its
  request with \<^verbatim>\<open>needTotal = false\<close>, what it does with the response does not depend on the
  total the response carries, and \<^verbatim>\<open>hasMore\<close> after it compares that first total with the
  number of children.
\<close>

theorem reset_keeps_total:
  "currentOffset (reset s) = 0 \<and> children (reset s) = []
   \<and> total_priv (reset s) = total_priv s
   \<and> (is_zero (total_priv s0) \<and> fetch0 (pageRequest (popLast s0)) = Inr r
        \<and> \<not> is_zero (resp_total r) \<longrightarrow>
       (let sR = reset (loadMoreSeq earlier (snd (loadMore fetch0 s0)));
            sN = loadMoreSeq later sR
        in total_priv sR = resp_total r
         \<and> total_priv sN = resp_total r
         \<and> \<not> req_needTotal (pageRequest (popLast sN))
         \<and> receivePage (r'\<lparr>resp_total := x\<rparr>) (popLast sN) = receivePage r' (popLast sN)
         \<and> hasMore (snd (loadMore fetch sN)) =
             js_gt (resp_total r) (length (children (snd (loadMore fetch sN))))))"
proof -
  have frame: "currentOffset (reset s) = 0 \<and> children (reset s) = []
      \<and> total_priv (reset s) = total_priv s"
    by (simp add: reset_def)
  have later: "(let sR = reset (loadMoreSeq earlier (snd (loadMore fetch0 s0)));
            sN = loadMoreSeq later sR
        in total_priv sR = resp_total r
         \<and> total_priv sN = resp_total r
         \<and> \<not> req_needTotal (pageRequest (popLast sN))
         \<and> receivePage (r'\<lparr>resp_total := x\<rparr>) (popLast sN) = receivePage r' (popLast sN)
         \<and> hasMore (snd (loadMore fetch sN)) =
             js_gt (resp_total r) (length (children (snd (loadMore fetch sN)))))"
    if z: "is_zero (total_priv s0)" and f: "fetch0 (pageRequest (popLast s0)) = Inr r"
      and nz: "\<not> is_zero (resp_total r)"
  proof -
    define s1 where "s1 = snd (loadMore fetch0 s0)"
    define sR where "sR = reset (loadMoreSeq earlier s1)"
    define sN where "sN = loadMoreSeq later sR"
    have t1: "total_priv s1 = resp_total r"
      unfolding s1_def using z f by (rule loadMore_first_total)
    have tR: "total_priv sR = resp_total r"
      unfolding sR_def using t1 nz by (simp add: reset_def loadMoreSeq_keeps_known_total)
    have tN: "total_priv sN = resp_total r"
      unfolding sN_def using tR nz by (simp add: loadMoreSeq_keeps_known_total)
    have tN': "total_priv (snd (loadMore fetch sN)) = resp_total r"
      using tN nz by (simp add: loadMore_keeps_known_total)
    have rq: "\<not> req_needTotal (pageRequest (popLast sN))"
      using tN nz by (simp add: pageRequest_def popLast_simps)
    have ig: "receivePage (r'\<lparr>resp_total := x\<rparr>) (popLast sN) = receivePage r' (popLast sN)"
      using tN nz by (simp add: receivePage_ignores_header popLast_simps)
    from tR tN tN' rq ig show ?thesis
      unfolding Let_def s1_def [symmetric] sR_def [symmetric] sN_def [symmetric]
      by (simp add: hasMore_def)
  qed
  from frame later show ?thesis by blast
qed

theorem reset_keeps_total_witness:
  "currentOffset (reset afterOnePage) = 0
   \<and> children (reset afterOnePage) = []
   \<and> total_priv (reset afterOnePage) = Finite 10
   \<and> is_zero (total_priv fourPerPage)
   \<and> listing tenProfiles (pageRequest (popLast fourPerPage)) =
        Inr \<lparr>resp_data = take 4 tenProfiles, resp_total = Finite 10\<rparr>
   \<and> \<not> req_needTotal (pageRequest (popLast (reset afterOnePage)))
   \<and> children (snd (loadMore (listing threeProfiles) (reset afterOnePage))) =
        map (newChild AccessProfiles) threeProfiles @ [LoadMoreNode]
   \<and> hasMore (snd (loadMore (listing threeProfiles) (reset afterOnePage)))"
proof -
  have z: "is_zero (total_priv fourPerPage)"
    by (simp add: fourPerPage_def newPageableNode_def)
  have f: "listing tenProfiles (pageRequest (popLast fourPerPage)) =
        Inr \<lparr>resp_data = take 4 tenProfiles, resp_total = Finite 10\<rparr>"
    by (simp add: listing_def pageRequest_def popLast_def fourPerPage_def
        newPageableNode_def tenProfiles_def)
  have c: "children (snd (loadMore (listing threeProfiles) (reset afterOnePage))) =
        map (newChild AccessProfiles) threeProfiles @ [LoadMoreNode]"
    by (simp add: afterOnePage_eq reset_def loadMore_def popLast_def pageRequest_def
        receivePage_def hasMore_def listing_def threeProfiles_def)
  have t: "total_priv afterOnePage = Finite 10" by (simp add: afterOnePage_eq)
  from z f c t
    reset_keeps_total [where s = afterOnePage and ?s0.0 = fourPerPage
      and ?fetch0.0 = "listing tenProfiles"
      and r = "\<lparr>resp_data = take 4 tenProfiles, resp_total = Finite 10\<rparr>"
      and earlier = "[]" and later = "[]" and fetch = "listing threeProfiles"
      and r' = "\<lparr>resp_data = [], resp_total = NaN\<rparr>" and x = NaN]
  show ?thesis
    by (simp add: Let_def afterOnePage_def [symmetric] threeProfiles_def)
qed



section \<open>Properties of the reset and aggregation commands\<close>

lemma resetAccounts_starts_no_entitlement_reset:
  "entitlementResetStarts (fst (resetAccounts w item c)) = 0"
  by (simp add: resetAccounts_def declined_def await_def invoke_def finish_def
      entitlementResetStarts_def split: sum.splits prod.splits)

lemma resetEntitlements_starts_once:
  "entitlementResetStarts (fst (resetEntitlements w item False)) = 1"
  by (simp add: resetEntitlements_def declined_def await_def invoke_def finish_def
      entitlementResetStarts_def split: sum.splits prod.splits)

lemma entitlementResetStarts_append:
  "entitlementResetStarts (a @ b) = entitlementResetStarts a + entitlementResetStarts b"
  by (simp add: entitlementResetStarts_def)

lemma resetAccounts_accepted:
  assumes "c \<longrightarrow> confirm w (''Are you sure you want to reset accounts for '' @ label item @ ''?'')"
    and "startAccountReset w (item_id item) = Inr job"
    and "waifForJob w job = Inr task"
  shows "snd (resetAccounts w item c) = Inr task"
  using assms by (simp add: resetAccounts_def declined_def await_def invoke_def finish_def)

lemma resetAccounts_declined:
  assumes "c"
    and "\<not> confirm w (''Are you sure you want to reset accounts for '' @ label item @ ''?'')"
  shows "resetAccounts w item c =
     ([Confirm (''Are you sure you want to reset accounts for '' @ label item @ ''?'')],
      Inr None)"
  using assms by (simp add: resetAccounts_def declined_def await_def invoke_def finish_def)

lemma resetEntitlements_declined:
  assumes "c"
    and "\<not> confirm w (''Are you sure you want to reset entitlements for '' @ label item @ ''?'')"
  shows "resetEntitlements w item c =
     ([Confirm (''Are you sure you want to reset entitlements for '' @ label item @ ''?'')],
      Inr None)"
  using assms by (simp add: resetEntitlements_def declined_def await_def invoke_def finish_def)

lemma resetEntitlements_no_task:
  "snd (resetEntitlements w item c) = Inr r \<Longrightarrow> r = None"
  by (auto simp add: resetEntitlements_def declined_def await_def invoke_def finish_def
      split: sum.splits prod.splits if_splits)

lemma resetEntitlements_completes:
  assumes "c \<longrightarrow> confirm w (''Are you sure you want to reset entitlements for '' @ label item @ ''?'')"
    and "startEntitlementReset w (item_id item) = Inr job"
    and "waifForJob w job = Inr task"
  shows "snd (resetEntitlements w item c) = Inr None"
  using assms by (simp add: resetEntitlements_def declined_def await_def invoke_def finish_def)

lemma aggregateEntitlements_completes:
  assumes "startEntitlementAggregation w (item_id item) = Inr job"
    and "waifForJob w job = Inr task"
  shows "aggregateEntitlements w item =
     ([StartEntitlementAggregation (item_id item), WaifForJob job,
       FormatTask task (label item)
         ''Source entitlements {0} successfully aggregated''
         ''Warning during aggregation of {0}: {1}''
         ''Aggregation of entitlements for {0} failed: {1}: {2}''], Inr ())"
  using assms by (simp add: aggregateEntitlements_def await_def invoke_def)

lemma aggregateSource_completes:
  assumes "startAccountAggregation w (item_id item) d = Inr job"
    and "waifForJob w job = Inr task"
  shows "aggregateSource w item d =
     ([StartAccountAggregation (item_id item) d, WaifForJob job,
       FormatTask task (label item)
         ''Source {0} successfully aggregated''
         ''Warning during aggregation of {0}: {1}''
         ''Aggregation of {0} failed: {1}: {2}''], Inr ())"
  using assms by (simp add: aggregateSource_def await_def invoke_def)

text \<open>
  Claim C1. In every run of \<^verbatim>\<open>resetSource\<close> the entitlement reset is started exactly once
  when the user has confirmed and the account reset has handed back a task whose
  completion status is Success (compared in upper case, as the command compares it), and
  it is started zero times in every other case: another completion status, no task, a
  rejected account reset, or a declined confirmation.
\<close>

theorem resetSource_entitlement_gate:
  "entitlementResetStarts (fst (resetSource w item)) =
     (if confirm w (''Are you sure you want to reset the source '' @ label item @ ''?'')
         \<and> (\<exists>task. snd (resetAccounts w item False) = Inr task \<and> isSuccess task)
      then 1 else 0)"
proof -
  obtain t r where ra: "resetAccounts w item False = (t, r)"
    by (cases "resetAccounts w item False")
  have t0: "entitlementResetStarts t = 0"
    using resetAccounts_starts_no_entitlement_reset [of w item False] ra by simp
  obtain t' r' where re: "resetEntitlements w item False = (t', r')"
    by (cases "resetEntitlements w item False")
  have t1: "entitlementResetStarts t' = 1"
    using resetEntitlements_starts_once [of w item] re by simp
  show ?thesis
    using t0 t1
    by (cases r; cases r')
       (simp_all add: resetSource_def declined_def await_def invoke_def finish_def ra re
          entitlementResetStarts_append,
        simp_all add: entitlementResetStarts_def)
qed

theorem resetSource_entitlement_gate_witness:
  "entitlementResetStarts (fst (resetSource (worldEnding (Some successTask)) hrSource)) = 1
   \<and> entitlementResetStarts (fst (resetSource (worldEnding (Some warningTask)) hrSource)) = 0
   \<and> entitlementResetStarts (fst (resetSource (worldEnding None) hrSource)) = 0"
proof -
  have s: "isSuccess (Some successTask)" by code_simp
  have w: "\<not> isSuccess (Some warningTask)" by code_simp
  have n: "\<not> isSuccess None" by (simp add: isSuccess_def)
  have a: "snd (resetAccounts (worldEnding t) hrSource False) = Inr t" for t
    by (simp add: resetAccounts_def declined_def await_def invoke_def finish_def
        worldEnding_def)
  have c: "confirm (worldEnding t) m" for t m by (simp add: worldEnding_def)
  show ?thesis
    using resetSource_entitlement_gate [of "worldEnding (Some successTask)" hrSource]
      resetSource_entitlement_gate [of "worldEnding (Some warningTask)" hrSource]
      resetSource_entitlement_gate [of "worldEnding None" hrSource]
    by (simp add: a c s w n)
qed

text \<open>
  An entitlement reset whose job ends in Success: the poll hands the task back, the
  outcome is formatted from it, and the command resolves to no task.
\<close>

theorem resetEntitlements_returns_no_task:
  "waifForJob (worldEnding (Some successTask)) ''job-entitlements'' = Inr (Some successTask)
   \<and> fst (resetEntitlements (worldEnding (Some successTask)) hrSource False) =
       [StartEntitlementReset ''2c91808a'', WaifForJob ''job-entitlements'',
        FormatTask (Some successTask) ''HR''
          ''Entitlements for {0} successfully resetted''
          ''Warning during entitlement reset of {0}: {1}''
          ''Reset of entitlements for {0} failed: {1}: {2}'']
   \<and> snd (resetEntitlements (worldEnding (Some successTask)) hrSource False) = Inr None"
  by (simp add: resetEntitlements_def declined_def await_def invoke_def finish_def
      worldEnding_def hrSource_def)

text \<open>
  Claim C7, amended. Of the four single operations only the account reset hands the
  outcome of the poll to its caller: once the job is started and polled, it returns
  exactly what \<^verbatim>\<open>waifForJob\<close> resolved to (the task, or no task); when the confirmation
  is asked for and declined, it starts nothing and returns no task. The entitlement reset
  resolves to no task whatever the poll resolved to (and starts nothing when the
  confirmation is declined), and the two aggregations start their job, poll it, format
  the outcome and resolve to no value.
\<close>

theorem single_operation_results:
  "((c \<longrightarrow> confirm w (''Are you sure you want to reset accounts for '' @ label item @ ''?''))
      \<and> startAccountReset w (item_id item) = Inr job1 \<and> waifForJob w job1 = Inr task1
      \<longrightarrow> snd (resetAccounts w item c) = Inr task1)
   \<and> (c \<and> \<not> confirm w (''Are you sure you want to reset accounts for '' @ label item @ ''?'')
      \<longrightarrow> resetAccounts w item c =
           ([Confirm (''Are you sure you want to reset accounts for '' @ label item @ ''?'')],
            Inr None))
   \<and> (c \<and> \<not> confirm w (''Are you sure you want to reset entitlements for '' @ label item @ ''?'')
      \<longrightarrow> resetEntitlements w item c =
           ([Confirm (''Are you sure you want to reset entitlements for '' @ label item @ ''?'')],
            Inr None))
   \<and> ((c \<longrightarrow> confirm w (''Are you sure you want to reset entitlements for '' @ label item @ ''?''))
      \<and> startEntitlementReset w (item_id item) = Inr job2 \<and> waifForJob w job2 = Inr task2
      \<longrightarrow> snd (resetEntitlements w item c) = Inr None)
   \<and> (snd (resetEntitlements w item c) = Inr r \<longrightarrow> r = None)
   \<and> (startEntitlementAggregation w (item_id item) = Inr job3 \<and> waifForJob w job3 = Inr task3
      \<longrightarrow> aggregateEntitlements w item =
           ([StartEntitlementAggregation (item_id item), WaifForJob job3,
             FormatTask task3 (label item)
               ''Source entitlements {0} successfully aggregated''
               ''Warning during aggregation of {0}: {1}''
               ''Aggregation of entitlements for {0} failed: {1}: {2}''], Inr ()))
   \<and> (startAccountAggregation w (item_id item) d = Inr job4 \<and> waifForJob w job4 = Inr task4
      \<longrightarrow> aggregateSource w item d =
           ([StartAccountAggregation (item_id item) d, WaifForJob job4,
             FormatTask task4 (label item)
               ''Source {0} successfully aggregated''
               ''Warning during aggregation of {0}: {1}''
               ''Aggregation of {0} failed: {1}: {2}''], Inr ()))"
  using resetAccounts_accepted [of c w item job1 task1]
    resetAccounts_declined [of c w item]
    resetEntitlements_declined [of c w item]
    resetEntitlements_completes [of c w item job2 task2]
    resetEntitlements_no_task [of w item c r]
    aggregateEntitlements_completes [of w item job3 task3]
    aggregateSource_completes [of w item d job4 task4]
  by blast

theorem single_operation_results_witness:
  "snd (resetAccounts (worldEnding (Some warningTask)) hrSource True) = Inr (Some warningTask)
   \<and> snd (resetAccounts (worldEnding None) hrSource True) = Inr None
   \<and> snd (resetEntitlements (worldEnding (Some warningTask)) hrSource True) = Inr None
   \<and> snd (aggregateEntitlements (worldEnding (Some warningTask)) hrSource) = Inr ()
   \<and> snd (aggregateSource (worldEnding (Some warningTask)) hrSource False) = Inr ()
   \<and> \<not> confirm (worldDeclining (Some successTask))
          ''Are you sure you want to reset accounts for HR?''
   \<and> waifForJob (worldDeclining (Some successTask)) ''job-accounts'' = Inr (Some successTask)
   \<and> resetAccounts (worldDeclining (Some successTask)) hrSource True =
        ([Confirm ''Are you sure you want to reset accounts for HR?''], Inr None)
   \<and> resetEntitlements (worldDeclining (Some successTask)) hrSource True =
        ([Confirm ''Are you sure you want to reset entitlements for HR?''], Inr None)"
  using
    single_operation_results [where w = "worldDeclining (Some successTask)"
      and item = hrSource and c = True]
    single_operation_results [where w = "worldEnding (Some warningTask)" and item = hrSource
      and c = True and ?job1.0 = "''job-accounts''" and ?task1.0 = "Some warningTask"
      and ?job2.0 = "''job-entitlements''" and ?task2.0 = "Some warningTask"
      and ?job3.0 = "''job-entitlement-aggregation''" and ?task3.0 = "Some warningTask"
      and ?job4.0 = "''job-aggregation''" and ?task4.0 = "Some warningTask" and d = False
      and r = None]
    single_operation_results [where w = "worldEnding None" and item = hrSource
      and c = True and ?job1.0 = "''job-accounts''" and ?task1.0 = None]
  by (simp add: worldEnding_def worldDeclining_def hrSource_def)


section \<open>Properties of the single-flight cache\<close>

lemma getAll_pending:
  "entries st k = Some (Pending ws) \<Longrightarrow>
     getAll cs k st = st\<lparr>entries := (entries st)(k \<mapsto> Pending (ws @ cs))\<rparr>"
proof (induction cs arbitrary: st ws)
  case Nil
  then show ?case by (simp add: fun_upd_idem)
next
  case (Cons c cs)
  have g: "get c k st = st\<lparr>entries := (entries st)(k \<mapsto> Pending (ws @ [c]))\<rparr>"
    using Cons.prems by (simp add: get_def)
  have "entries (get c k st) k = Some (Pending (ws @ [c]))"
    by (simp add: g)
  from Cons.IH [OF this] have "getAll cs k (get c k st) =
      (get c k st)\<lparr>entries := (entries (get c k st))(k \<mapsto> Pending ((ws @ [c]) @ cs))\<rparr>" .
  also have "\<dots> = st\<lparr>entries := (entries st)(k \<mapsto> Pending (ws @ c # cs))\<rparr>"
    by (simp add: g)
  finally show ?case by (simp only: getAll.simps)
qed

lemma getAll_miss:
  assumes "entries st k = None"
  shows "getAll (c # cs) k st =
     st\<lparr>entries := (entries st)(k \<mapsto> Pending (c # cs)),
        resolverCalls := resolverCalls st @ [k]\<rparr>"
proof -
  have "entries (get c k st) k = Some (Pending [c])" using assms by (simp add: get_def)
  from getAll_pending [OF this, of cs] assms show ?thesis by (simp add: get_def)
qed

text \<open>
  Claim C2. For every key \<open>k\<close> without an entry and every non-empty list of callers that
  call \<^verbatim>\<open>get(k)\<close> before the resolution settles: when the resolver succeeds with \<open>v\<close>, the
  resolver has been invoked exactly once for these calls, every one of the callers
  receives \<open>v\<close>, and the entry of \<open>k\<close> is Resolved with \<open>v\<close>.
\<close>

theorem concurrent_gets_resolve_once:
  assumes "entries st k = None" and "cs \<noteq> []"
  shows "resolverCalls (settle k (Inr v) (getAll cs k st)) = resolverCalls st @ [k]
       \<and> delivered (settle k (Inr v) (getAll cs k st)) =
           delivered st @ map (\<lambda>c. (c, k, Inr v)) cs
       \<and> entries (settle k (Inr v) (getAll cs k st)) k = Some (Resolved v)"
proof -
  from assms(2) obtain c cs' where cs: "cs = c # cs'" by (cases cs) auto
  show ?thesis unfolding cs using getAll_miss [OF assms(1), of c cs']
    by (simp add: settle_def)
qed

theorem concurrent_gets_resolve_once_witness:
  "entries (emptyCache :: string SingleFlightCache) ''Payroll'' = None
   \<and> [1, 2, 3 :: nat] \<noteq> []
   \<and> accessProfileNameToId oneProfileDirectory ''Payroll'' = Inr ''2c9180''
   \<and> resolverCalls (settle ''Payroll'' (accessProfileNameToId oneProfileDirectory ''Payroll'')
        (getAll [1, 2, 3] ''Payroll'' emptyCache)) = [''Payroll'']
   \<and> delivered (settle ''Payroll'' (accessProfileNameToId oneProfileDirectory ''Payroll'')
        (getAll [1, 2, 3] ''Payroll'' emptyCache)) =
        [(1, ''Payroll'', Inr ''2c9180''), (2, ''Payroll'', Inr ''2c9180''),
         (3, ''Payroll'', Inr ''2c9180'')]"
proof -
  have r: "accessProfileNameToId oneProfileDirectory ''Payroll'' = Inr ''2c9180''"
    by (simp add: accessProfileNameToId_def oneProfileDirectory_def)
  have e: "entries (emptyCache :: string SingleFlightCache) ''Payroll'' = None"
    by (simp add: emptyCache_def)
  from concurrent_gets_resolve_once [where st = "emptyCache :: string SingleFlightCache"
      and k = "''Payroll''" and cs = "[1, 2, 3]" and v = "''2c9180''"] e r
  show ?thesis by (simp add: emptyCache_def)
qed

text \<open>
  Claim C8. For every key \<open>k\<close> without an entry: when the resolution started by the first
  \<^verbatim>\<open>get(k)\<close> fails, that caller receives the error and the cache holds no entry for \<open>k\<close>;
  the next \<^verbatim>\<open>get(k)\<close> invokes the resolver again, and when that resolution succeeds with
  \<open>v\<close> the second caller receives \<open>v\<close> and the entry is Resolved.
\<close>

theorem failed_resolution_is_retried:
  assumes "entries st k = None"
  shows "let s1 = settle k (Inl e) (get c1 k st);
             s2 = settle k (Inr v) (get c2 k s1)
         in delivered s1 = delivered st @ [(c1, k, Inl e)]
          \<and> entries s1 k = None
          \<and> resolverCalls s1 = resolverCalls st @ [k]
          \<and> resolverCalls s2 = resolverCalls st @ [k, k]
          \<and> delivered s2 = delivered st @ [(c1, k, Inl e), (c2, k, Inr v)]
          \<and> entries s2 k = Some (Resolved v)"
  using assms by (simp add: Let_def get_def settle_def)

theorem failed_resolution_is_retried_witness:
  "entries (emptyCache :: string SingleFlightCache) ''Payroll'' = None
   \<and> delivered (settle ''Payroll'' (Inl (Rejected ''timeout''))
        (get 1 ''Payroll'' emptyCache)) =
        [(1, ''Payroll'', Inl (Rejected ''timeout'') :: err + string)]
   \<and> entries (settle ''Payroll'' (Inl (Rejected ''timeout'') :: err + string)
        (get 1 ''Payroll'' emptyCache)) ''Payroll'' = None
   \<and> resolverCalls (settle ''Payroll'' (Inr ''2c9180'')
        (get 2 ''Payroll''
          (settle ''Payroll'' (Inl (Rejected ''timeout'')) (get 1 ''Payroll'' emptyCache)))) =
        [''Payroll'', ''Payroll'']
   \<and> delivered (settle ''Payroll'' (Inr ''2c9180'')
        (get 2 ''Payroll''
          (settle ''Payroll'' (Inl (Rejected ''timeout'')) (get 1 ''Payroll'' emptyCache)))) =
        [(1, ''Payroll'', Inl (Rejected ''timeout'')), (2, ''Payroll'', Inr ''2c9180'')]"
proof -
  have e: "entries (emptyCache :: string SingleFlightCache) ''Payroll'' = None"
    by (simp add: emptyCache_def)
  from failed_resolution_is_retried [where st = "emptyCache :: string SingleFlightCache"
      and k = "''Payroll''" and e = "Rejected ''timeout''" and v = "''2c9180''"
      and ?c1.0 = 1 and ?c2.0 = 2] e
  show ?thesis by (simp add: Let_def emptyCache_def)
qed

end
